theory Spec2Isabelle
  imports Complex_Main "HOL-Library.AList" "HOL-Library.Sublist"
begin

text \<open>
  A shallow embedding of \<^verbatim>\<open>src/server.ts\<close> of poeditor-mcp, in its revision that registers
  add\_terms\_with\_translations: the adapter \<^verbatim>\<open>poeditor\<close>, the resolution of the project
  identifier \<^verbatim>\<open>requireProjectId\<close>, and the seven tool handlers. Exceptions are values of a
  sum type, and the requests made to the remote service are a list that every handler
  takes and returns.
\<close>

section \<open>JavaScript values\<close>

text \<open>
  The server is TypeScript over values of type \<^verbatim>\<open>any\<close>: parsed JSON from the remote
  service, and object literals whose fields may be \<^verbatim>\<open>undefined\<close>. A JavaScript number is
  a double: not-a-number, an infinity, or a finite rational (negative zero is \<open>Finite 0\<close>,
  which is falsy and prints like zero).
\<close>

datatype number = NaN | PosInfinity | NegInfinity | Finite rat

datatype js =
    JUndefined
  | JNull
  | JBool bool
  | JNum number
  | JStr string
  | JArr "js list"
  | JObj "(string \<times> js) list"

text \<open>
  An object is its list of own properties in insertion order, each key once.
  Errors are the values the code throws: \<open>Error\<close> with the message of a
  \<^verbatim>\<open>new Error(message)\<close>, the engine's \<open>TypeError\<close> (reading a property of
  \<^verbatim>\<open>null\<close>, calling what is not a function), and a failure of the HTTP client.
\<close>

datatype error = Error string | TypeError | TransportError string

fun truthy_number :: "number \<Rightarrow> bool" where
  "truthy_number NaN = False"
| "truthy_number (Finite q) = (q \<noteq> 0)"
| "truthy_number PosInfinity = True"
| "truthy_number NegInfinity = True"

fun truthy :: "js \<Rightarrow> bool" where
  "truthy JUndefined = False"
| "truthy JNull = False"
| "truthy (JBool b) = b"
| "truthy (JNum n) = truthy_number n"
| "truthy (JStr s) = (s \<noteq> [])"
| "truthy (JArr xs) = True"
| "truthy (JObj kvs) = True"

fun nullish :: "js \<Rightarrow> bool" where
  "nullish JUndefined = True"
| "nullish JNull = True"
| "nullish v = False"

text \<open>\<^verbatim>\<open>a ?? b\<close> and \<^verbatim>\<open>a || b\<close> (both operands here are values, not effects).\<close>

definition coalesce :: "js \<Rightarrow> js \<Rightarrow> js" where
  "coalesce a b = (if nullish a then b else a)"

definition js_or :: "js \<Rightarrow> js \<Rightarrow> js" where
  "js_or a b = (if truthy a then a else b)"

text \<open>
  \<^verbatim>\<open>v.k\<close> for the property names the server reads (response, status, code, message,
  result, terms, term, context, translation, content): none of them is a built-in
  property of a string, a number, a boolean or an array, so only an object can hold
  one. Reading a property of \<^verbatim>\<open>null\<close> or \<^verbatim>\<open>undefined\<close> throws.
\<close>

fun field :: "js \<Rightarrow> string \<Rightarrow> js" where
  "field (JObj kvs) k = (case map_of kvs k of Some v \<Rightarrow> v | None \<Rightarrow> JUndefined)"
| "field v k = JUndefined"

definition read_prop :: "js \<Rightarrow> string \<Rightarrow> error + js" where
  "read_prop v k = (if nullish v then Inl TypeError else Inr (field v k))"

text \<open>\<^verbatim>\<open>v?.k\<close>: \<^verbatim>\<open>undefined\<close> when \<open>v\<close> is nullish.\<close>

definition opt_prop :: "js \<Rightarrow> string \<Rightarrow> js" where
  "opt_prop v k = (if nullish v then JUndefined else field v k)"

text \<open>Whether an object has a property of that name at all.\<close>

fun has_key :: "js \<Rightarrow> string \<Rightarrow> bool" where
  "has_key (JObj kvs) k = (map_of kvs k \<noteq> None)"
| "has_key v k = False"

section \<open>The runtime and the configuration\<close>

text \<open>
  The built-ins of the language that the server calls and whose full definition
  (a JSON grammar, the rounding of decimal text to a double, the printing of a double,
  Unicode case mapping) is not part of this repository are parameters of the model.
\<close>

record runtime =
  JSON_parse :: "string \<Rightarrow> js option"
  Number_of :: "string \<Rightarrow> number"
  String_of :: "number \<Rightarrow> string"
  toLowerCase :: "string \<Rightarrow> string"

text \<open>
  \<^verbatim>\<open>API_BASE\<close>, \<^verbatim>\<open>API_TOKEN\<close> and \<^verbatim>\<open>PROJECT_ID\<close> are read once at startup; the
  process exits when the token is missing, so a serving process has one.
\<close>

record config =
  API_BASE :: string
  API_TOKEN :: string
  PROJECT_ID :: "string option"

text \<open>
  A template literal \<^verbatim>\<open>${v}\<close> converts \<open>v\<close> to a string. A string is itself. An array
  joins its elements with commas, converting each in turn (a nullish element prints as
  nothing). An object is converted through its \<^verbatim>\<open>toString\<close> property: a parsed object
  without an own property of that name inherits the built-in one and prints as
  \<^verbatim>\<open>[object Object]\<close>; with an own property of that name, whose value is parsed JSON
  and so not a function, the conversion throws a \<^verbatim>\<open>TypeError\<close>.
\<close>

fun ToString :: "runtime \<Rightarrow> js \<Rightarrow> error + string"
  and join_elements :: "runtime \<Rightarrow> js list \<Rightarrow> error + string" where
  "ToString rt JUndefined = Inr ''undefined''"
| "ToString rt JNull = Inr ''null''"
| "ToString rt (JBool b) = Inr (if b then ''true'' else ''false'')"
| "ToString rt (JNum n) = Inr (String_of rt n)"
| "ToString rt (JStr s) = Inr s"
| "ToString rt (JArr xs) = join_elements rt xs"
| "ToString rt (JObj kvs) =
     (if map_of kvs ''toString'' \<noteq> None then Inl TypeError else Inr ''[object Object]'')"
| "join_elements rt [] = Inr []"
| "join_elements rt [x] = (if nullish x then Inr [] else ToString rt x)"
| "join_elements rt (x # y # ys) =
     (case (if nullish x then Inr [] else ToString rt x) of
        Inl e \<Rightarrow> Inl e
      | Inr s \<Rightarrow>
         (case join_elements rt (y # ys) of
            Inl e \<Rightarrow> Inl e
          | Inr t \<Rightarrow> Inr (s @ '','' @ t)))"

text \<open>
  The values that convert: everything but an object with an own \<^verbatim>\<open>toString\<close> property,
  and an array holding such a value.
\<close>

fun stringable :: "js \<Rightarrow> bool"
  and stringable_elements :: "js list \<Rightarrow> bool" where
  "stringable (JArr xs) = stringable_elements xs"
| "stringable (JObj kvs) = (map_of kvs ''toString'' = None)"
| "stringable v = True"
| "stringable_elements [] = True"
| "stringable_elements (x # xs) = ((nullish x \<or> stringable x) \<and> stringable_elements xs)"

text \<open>
  \<^verbatim>\<open>JSON.stringify\<close> leaves out an object's properties whose value is
  \<^verbatim>\<open>undefined\<close>, and writes \<^verbatim>\<open>null\<close> for \<^verbatim>\<open>undefined\<close> in an array and for a number
  that is not finite. \<open>serial v\<close> is the JSON value that the text denotes; the text
  itself (escapes, indentation) is kept abstract: a string produced by
  \<^verbatim>\<open>JSON.stringify\<close> is represented by \<open>JsonText\<close> of that value, one produced by
  \<^verbatim>\<open>JSON.stringify(v, null, 2)\<close> by \<open>JsonTextIndented\<close>, and \<^verbatim>\<open>String(n)\<close> by
  \<open>NumberText n\<close>.
\<close>

fun serial :: "js \<Rightarrow> js" where
  "serial (JArr xs) = JArr (map (\<lambda>x. if x = JUndefined then JNull else serial x) xs)"
| "serial (JObj kvs) =
     JObj (map (\<lambda>kv. (fst kv, serial (snd kv))) (filter (\<lambda>kv. snd kv \<noteq> JUndefined) kvs))"
| "serial (JNum (Finite q)) = JNum (Finite q)"
| "serial (JNum n) = JNull"
| "serial v = v"

datatype jstext = Text string | NumberText number | JsonText js | JsonTextIndented js

definition JSON_stringify :: "js \<Rightarrow> jstext" where
  "JSON_stringify v = JsonText (serial v)"

definition JSON_stringify_indent2 :: "js \<Rightarrow> jstext" where
  "JSON_stringify_indent2 v = JsonTextIndented (serial v)"

section \<open>The remote call adapter\<close>

text \<open>
  One POST: the URL and the form body. The remote service and the network are a
  function from the requests made so far and the present request to a reply: a body
  text, or a failure of the client. The list of requests made is the state every
  handler threads through.
\<close>

record request =
  url :: string
  body :: "(string \<times> jstext) list"

datatype reply = ResponseText string | RequestFailed string

type_synonym remote = "request list \<Rightarrow> request \<Rightarrow> reply"

definition form_request :: "config \<Rightarrow> string \<Rightarrow> (string \<times> jstext) list \<Rightarrow> request" where
  "form_request cfg endpoint form =
     \<lparr>url = API_BASE cfg @ ''/'' @ endpoint,
      body = foldl (\<lambda>b kv. AList.update (fst kv) (snd kv) b)
               [(''api_token'', Text (API_TOKEN cfg))] form\<rparr>"

definition poeditor ::
  "runtime \<Rightarrow> config \<Rightarrow> remote \<Rightarrow> string \<Rightarrow> (string \<times> jstext) list \<Rightarrow> request list
   \<Rightarrow> (error + js) \<times> request list" where
  "poeditor rt cfg net endpoint form trace =
    (let req = form_request cfg endpoint form;
         trace' = trace @ [req]
     in case net trace req of
          RequestFailed m \<Rightarrow> (Inl (TransportError m), trace')
        | ResponseText text \<Rightarrow>
            (case JSON_parse rt text of
               None \<Rightarrow> (Inl (Error (''POEditor: invalid JSON response: '' @ text)), trace')
             | Some json \<Rightarrow>
                 (let status = opt_prop (opt_prop json ''response'') ''status'' in
                  if status \<noteq> JStr ''success'' then
                    (let code = opt_prop (opt_prop json ''response'') ''code'';
                         message = js_or (opt_prop (opt_prop json ''response'') ''message'')
                                     (JStr ''Unknown POEditor error'')
                     in case ToString rt (coalesce code (JStr [])) of
                          Inl e \<Rightarrow> (Inl e, trace')
                        | Inr code_text \<Rightarrow>
                           (case ToString rt message of
                              Inl e \<Rightarrow> (Inl e, trace')
                            | Inr message_text \<Rightarrow>
                                (Inl (Error (''POEditor API error '' @ code_text @ '': ''
                                             @ message_text)), trace')))
                  else (Inr json, trace'))))"

section \<open>Identifier resolution\<close>

definition missing_project_id :: error where
  "missing_project_id =
     Error ''project_id is required (either pass it to the tool or set POEDITOR_PROJECT_ID)''"

text \<open>
  \<^verbatim>\<open>argProjectId ?? (PROJECT_ID ? Number(PROJECT_ID) : null)\<close>, then \<^verbatim>\<open>if (!id) throw\<close>:
  an empty \<^verbatim>\<open>PROJECT_ID\<close> is falsy, and so is a number that is zero or not a number.
\<close>

definition requireProjectId :: "runtime \<Rightarrow> config \<Rightarrow> number option \<Rightarrow> error + number" where
  "requireProjectId rt cfg argProjectId =
    (let id' = (case argProjectId of
                  Some n \<Rightarrow> Some n
                | None \<Rightarrow> (case PROJECT_ID cfg of
                             None \<Rightarrow> None
                           | Some s \<Rightarrow> if s \<noteq> [] then Some (Number_of rt s) else None))
     in case id' of
          None \<Rightarrow> Inl missing_project_id
        | Some n \<Rightarrow> if \<not> truthy_number n then Inl missing_project_id else Inr n)"

section \<open>Tool inputs\<close>

text \<open>
  The handlers receive arguments that the declared schemas have already validated and
  normalised, so the inputs are typed records: an optional field is an \<open>option\<close>
  (\<open>None\<close> is \<^verbatim>\<open>undefined\<close>), a field with a default is always there. The schemas
  share their first fields, so each record extends the one before: \<open>project_id\<close> alone
  is \<^verbatim>\<open>ListLanguagesInput\<close>, with \<open>language\<close> it is \<^verbatim>\<open>AddLanguageInput\<close>, with \<open>items\<close>
  it is \<^verbatim>\<open>TranslationsInput\<close> or \<^verbatim>\<open>AddTermsWithTranslationsInput\<close>. Field names that are
  reserved words here, or that two schemas use at different types, carry a prefix or a
  suffix: \<open>i_term\<close> is \<^verbatim>\<open>i.term\<close>, \<open>item_context\<close> is \<^verbatim>\<open>item.context\<close>, \<open>one_form\<close> is
  the plural category \<^verbatim>\<open>one\<close>, and \<open>language_opt\<close> and \<open>fields_opt\<close> are the optional
  \<^verbatim>\<open>language\<close> and \<^verbatim>\<open>fields\<close> of list\_terms. A limit is a natural number: the schema
  admits positive integers, and the handler treats zero as no limit.
\<close>

record plural_forms =
  one_form :: "string option"
  few_form :: "string option"
  many_form :: "string option"
  other_form :: "string option"

record translation_item =
  i_term :: string
  i_context :: "string option"
  i_content :: string
  i_fuzzy :: "bool option"
  i_plural :: "plural_forms option"

record translation_body =
  content :: string
  fuzzy :: "bool option"
  plural :: "plural_forms option"

record compound_item =
  item_term :: string
  item_context :: "string option"
  item_reference :: "string option"
  item_tags :: "string list option"
  item_translation :: translation_body

record ListLanguagesInput =
  project_id :: "number option"

record AddLanguageInput = ListLanguagesInput +
  language :: string

record 'i ItemsInput = AddLanguageInput +
  items :: "'i list"

type_synonym TranslationsInput = "translation_item ItemsInput"

type_synonym AddTermsWithTranslationsInput = "compound_item ItemsInput"

datatype term_field = F_term | F_context | F_translation

record ListTermsInput = ListLanguagesInput +
  language_opt :: "string option"
  limit :: "nat option"
  search :: "string option"
  count_only :: "bool option"
  fields_opt :: "term_field list option"

text \<open>\<^verbatim>\<open>z.number().int().positive()\<close>: what the schemas accept as a project identifier.\<close>

fun positive_int :: "number \<Rightarrow> bool" where
  "positive_int (Finite q) = (0 < q \<and> of_int \<lfloor>q\<rfloor> = q)"
| "positive_int n = False"

text \<open>
  A handler returns \<^verbatim>\<open>{ content: [{ type: "text", text }] }\<close>: the list of the texts of
  its content items.
\<close>

type_synonym tool_result = "jstext list"

section \<open>Payload shaping\<close>

definition opt_str :: "string option \<Rightarrow> js" where
  "opt_str s = (case s of Some x \<Rightarrow> JStr x | None \<Rightarrow> JUndefined)"

definition plural_js :: "plural_forms \<Rightarrow> js" where
  "plural_js p =
     JObj [(''one'', opt_str (one_form p)), (''few'', opt_str (few_form p)),
           (''many'', opt_str (many_form p)), (''other'', opt_str (other_form p))]"

text \<open>The function mapped over \<^verbatim>\<open>args.items\<close> by add\_translations and by update\_translations.\<close>

definition translation_record :: "translation_item \<Rightarrow> js" where
  "translation_record i =
     JObj [(''term'', JStr (i_term i)),
           (''context'', coalesce (opt_str (i_context i)) (JStr [])),
           (''translation'',
              (case i_plural i of
                 Some p \<Rightarrow> JObj [(''plural'', plural_js p)]
               | None \<Rightarrow> JObj [(''content'', JStr (i_content i)),
                               (''fuzzy'', JNum (Finite (if i_fuzzy i = Some True then 1 else 0)))]))]"

text \<open>The two functions mapped over \<^verbatim>\<open>args.items\<close> by add\_terms\_with\_translations.\<close>

definition term_record :: "compound_item \<Rightarrow> js" where
  "term_record item =
     JObj [(''term'', JStr (item_term item)),
           (''context'', opt_str (item_context item)),
           (''reference'', opt_str (item_reference item)),
           (''tags'', (case item_tags item of Some ts \<Rightarrow> JArr (map JStr ts) | None \<Rightarrow> JUndefined))]"

definition compound_translation_record :: "compound_item \<Rightarrow> js" where
  "compound_translation_record item =
     JObj [(''term'', JStr (item_term item)),
           (''context'', coalesce (opt_str (item_context item)) (JStr [])),
           (''translation'',
              (case plural (item_translation item) of
                 Some p \<Rightarrow> JObj [(''plural'', plural_js p)]
               | None \<Rightarrow> JObj [(''content'', JStr (content (item_translation item))),
                               (''fuzzy'', JNum (Finite (if fuzzy (item_translation item) = Some True
                                                         then 1 else 0)))]))]"

section \<open>The tool handlers\<close>

text \<open>\<^verbatim>\<open>JSON.stringify(res.result ?? {}, null, 2)\<close>, the result of five handlers.\<close>

definition result_text :: "js \<Rightarrow> error + tool_result" where
  "result_text res =
     (case read_prop res ''result'' of
        Inl e \<Rightarrow> Inl e
      | Inr result \<Rightarrow> Inr [JSON_stringify_indent2 (coalesce result (JObj []))])"

definition add_translations ::
  "runtime \<Rightarrow> config \<Rightarrow> remote \<Rightarrow> TranslationsInput \<Rightarrow> request list
   \<Rightarrow> (error + tool_result) \<times> request list" where
  "add_translations rt cfg net args trace =
    (case requireProjectId rt cfg (project_id args) of
       Inl e \<Rightarrow> (Inl e, trace)
     | Inr id' \<Rightarrow>
        (let payload = JArr (map translation_record (items args));
             data = JSON_stringify payload;
             (r, trace') = poeditor rt cfg net ''translations/add''
                             [(''id'', NumberText id'), (''language'', Text (language args)),
                              (''data'', data)] trace
         in case r of
              Inl e \<Rightarrow> (Inl e, trace')
            | Inr res \<Rightarrow> (result_text res, trace')))"

definition update_translations ::
  "runtime \<Rightarrow> config \<Rightarrow> remote \<Rightarrow> TranslationsInput \<Rightarrow> request list
   \<Rightarrow> (error + tool_result) \<times> request list" where
  "update_translations rt cfg net args trace =
    (case requireProjectId rt cfg (project_id args) of
       Inl e \<Rightarrow> (Inl e, trace)
     | Inr id' \<Rightarrow>
        (let payload = JArr (map translation_record (items args));
             data = JSON_stringify payload;
             (r, trace') = poeditor rt cfg net ''translations/update''
                             [(''id'', NumberText id'), (''language'', Text (language args)),
                              (''data'', data)] trace
         in case r of
              Inl e \<Rightarrow> (Inl e, trace')
            | Inr res \<Rightarrow> (result_text res, trace')))"

definition list_languages ::
  "runtime \<Rightarrow> config \<Rightarrow> remote \<Rightarrow> ListLanguagesInput \<Rightarrow> request list
   \<Rightarrow> (error + tool_result) \<times> request list" where
  "list_languages rt cfg net args trace =
    (case requireProjectId rt cfg (project_id args) of
       Inl e \<Rightarrow> (Inl e, trace)
     | Inr id' \<Rightarrow>
        (let (r, trace') = poeditor rt cfg net ''languages/list'' [(''id'', NumberText id')] trace
         in case r of
              Inl e \<Rightarrow> (Inl e, trace')
            | Inr res \<Rightarrow> (result_text res, trace')))"

definition list_available_languages ::
  "runtime \<Rightarrow> config \<Rightarrow> remote \<Rightarrow> request list \<Rightarrow> (error + tool_result) \<times> request list" where
  "list_available_languages rt cfg net trace =
    (let (r, trace') = poeditor rt cfg net ''languages/available'' [] trace
     in case r of
          Inl e \<Rightarrow> (Inl e, trace')
        | Inr res \<Rightarrow> (result_text res, trace'))"

definition add_language ::
  "runtime \<Rightarrow> config \<Rightarrow> remote \<Rightarrow> AddLanguageInput \<Rightarrow> request list
   \<Rightarrow> (error + tool_result) \<times> request list" where
  "add_language rt cfg net args trace =
    (case requireProjectId rt cfg (project_id args) of
       Inl e \<Rightarrow> (Inl e, trace)
     | Inr id' \<Rightarrow>
        (let (r, trace') = poeditor rt cfg net ''languages/add''
                             [(''id'', NumberText id'), (''language'', Text (language args))] trace
         in case r of
              Inl e \<Rightarrow> (Inl e, trace')
            | Inr res \<Rightarrow> (result_text res, trace')))"

subsection \<open>add\_terms\_with\_translations\<close>

definition combined_result :: "js \<Rightarrow> js \<Rightarrow> error + tool_result" where
  "combined_result termRes translationRes =
     (case read_prop termRes ''result'' of
        Inl e \<Rightarrow> Inl e
      | Inr termResult \<Rightarrow>
         (case read_prop translationRes ''result'' of
            Inl e \<Rightarrow> Inl e
          | Inr translationResult \<Rightarrow>
              Inr [JSON_stringify_indent2
                     (JObj [(''terms_added'', coalesce (opt_prop termResult ''terms'') termResult),
                            (''translations_added'', coalesce translationResult (JObj []))])]))"

definition add_terms_with_translations ::
  "runtime \<Rightarrow> config \<Rightarrow> remote \<Rightarrow> AddTermsWithTranslationsInput \<Rightarrow> request list
   \<Rightarrow> (error + tool_result) \<times> request list" where
  "add_terms_with_translations rt cfg net args trace =
    (case requireProjectId rt cfg (project_id args) of
       Inl e \<Rightarrow> (Inl e, trace)
     | Inr id' \<Rightarrow>
        (let termData = JSON_stringify (JArr (map term_record (items args)));
             (r1, trace1) = poeditor rt cfg net ''terms/add''
                              [(''id'', NumberText id'), (''data'', termData)] trace
         in case r1 of
              Inl e \<Rightarrow> (Inl e, trace1)
            | Inr termRes \<Rightarrow>
               (let translationPayload = JArr (map compound_translation_record (items args));
                    translationData = JSON_stringify translationPayload;
                    (r2, trace2) = poeditor rt cfg net ''translations/add''
                                     [(''id'', NumberText id'), (''language'', Text (language args)),
                                      (''data'', translationData)] trace1
                in case r2 of
                     Inl e \<Rightarrow> (Inl e, trace2)
                   | Inr translationRes \<Rightarrow> (combined_result termRes translationRes, trace2))))"

text \<open>The form fields of its two calls, by name, and what a request carries in \<^verbatim>\<open>data\<close>.\<close>

definition terms_add_form :: "number \<Rightarrow> compound_item list \<Rightarrow> (string \<times> jstext) list" where
  "terms_add_form pid its =
     [(''id'', NumberText pid), (''data'', JSON_stringify (JArr (map term_record its)))]"

definition translations_add_form ::
  "number \<Rightarrow> string \<Rightarrow> compound_item list \<Rightarrow> (string \<times> jstext) list" where
  "translations_add_form pid lang its =
     [(''id'', NumberText pid), (''language'', Text lang),
      (''data'', JSON_stringify (JArr (map compound_translation_record its)))]"

definition sent_records :: "request \<Rightarrow> js list" where
  "sent_records r =
     (case map_of (body r) ''data'' of
        Some (JsonText (JArr rs)) \<Rightarrow> rs
      | _ \<Rightarrow> [])"

definition sent_contexts :: "request \<Rightarrow> js list" where
  "sent_contexts r = map (\<lambda>record. field record ''context'') (sent_records r)"

subsection \<open>list\_terms\<close>

primrec map_err :: "('a \<Rightarrow> error + 'b) \<Rightarrow> 'a list \<Rightarrow> error + 'b list" where
  "map_err f [] = Inr []"
| "map_err f (x # xs) =
     (case f x of
        Inl e \<Rightarrow> Inl e
      | Inr y \<Rightarrow> (case map_err f xs of Inl e \<Rightarrow> Inl e | Inr ys \<Rightarrow> Inr (y # ys)))"

primrec filter_err :: "('a \<Rightarrow> error + bool) \<Rightarrow> 'a list \<Rightarrow> error + 'a list" where
  "filter_err p [] = Inr []"
| "filter_err p (x # xs) =
     (case p x of
        Inl e \<Rightarrow> Inl e
      | Inr b \<Rightarrow> (case filter_err p xs of Inl e \<Rightarrow> Inl e | Inr ys \<Rightarrow> Inr (if b then x # ys else ys)))"

text \<open>
  Extract term and translation content: the function mapped over the remote terms.
  Reading a property of a \<^verbatim>\<open>null\<close> element throws.
\<close>

definition reduce_term :: "js \<Rightarrow> error + js" where
  "reduce_term t =
     (case read_prop t ''term'' of
        Inl e \<Rightarrow> Inl e
      | Inr tm \<Rightarrow>
         (case read_prop t ''context'' of
            Inl e \<Rightarrow> Inl e
          | Inr c \<Rightarrow>
             (case read_prop t ''translation'' of
                Inl e \<Rightarrow> Inl e
              | Inr tr \<Rightarrow>
                  Inr (JObj [(''term'', tm),
                             (''context'', js_or c JUndefined),
                             (''translation'', js_or (opt_prop tr ''content'') JUndefined)]))))"

text \<open>
  \<^verbatim>\<open>res.result?.terms?.map(...) ?? []\<close>: no terms when the list is nullish; what is
  neither nullish nor an array has no \<^verbatim>\<open>map\<close> function to call.
\<close>

definition extract_terms :: "js \<Rightarrow> error + js list" where
  "extract_terms res =
     (case read_prop res ''result'' of
        Inl e \<Rightarrow> Inl e
      | Inr result \<Rightarrow>
         (case opt_prop result ''terms'' of
            JUndefined \<Rightarrow> Inr []
          | JNull \<Rightarrow> Inr []
          | JArr ts \<Rightarrow> map_err reduce_term ts
          | _ \<Rightarrow> Inl TypeError))"

text \<open>
  \<^verbatim>\<open>v?.toLowerCase().includes(searchLower)\<close>, as the truth value the filter reads:
  \<^verbatim>\<open>undefined\<close> (falsy) when \<open>v\<close> is nullish; a value that is not a string has no
  \<^verbatim>\<open>toLowerCase\<close> to call.
\<close>

fun lower_includes :: "runtime \<Rightarrow> string \<Rightarrow> js \<Rightarrow> error + bool" where
  "lower_includes rt searchLower JUndefined = Inr False"
| "lower_includes rt searchLower JNull = Inr False"
| "lower_includes rt searchLower (JStr s) = Inr (sublist searchLower (toLowerCase rt s))"
| "lower_includes rt searchLower v = Inl TypeError"

text \<open>The filter's predicate: \<^verbatim>\<open>||\<close> evaluates its right operand only when the left is falsy.\<close>

definition search_predicate :: "runtime \<Rightarrow> string \<Rightarrow> js \<Rightarrow> error + bool" where
  "search_predicate rt searchLower t =
     (case lower_includes rt searchLower (field t ''term'') of
        Inl e \<Rightarrow> Inl e
      | Inr True \<Rightarrow> Inr True
      | Inr False \<Rightarrow>
         (case lower_includes rt searchLower (field t ''context'') of
            Inl e \<Rightarrow> Inl e
          | Inr True \<Rightarrow> Inr True
          | Inr False \<Rightarrow> lower_includes rt searchLower (field t ''translation'')))"

definition apply_search :: "runtime \<Rightarrow> string option \<Rightarrow> js list \<Rightarrow> error + js list" where
  "apply_search rt srch terms =
     (case srch of
        None \<Rightarrow> Inr terms
      | Some s \<Rightarrow>
          if s \<noteq> [] then filter_err (search_predicate rt (toLowerCase rt s)) terms
          else Inr terms)"

definition select_fields :: "term_field list \<Rightarrow> js \<Rightarrow> js" where
  "select_fields fs t =
     JObj ((if F_term \<in> set fs then [(''term'', field t ''term'')] else [])
         @ (if F_context \<in> set fs then [(''context'', field t ''context'')] else [])
         @ (if F_translation \<in> set fs then [(''translation'', field t ''translation'')] else []))"

definition apply_fields :: "term_field list option \<Rightarrow> js list \<Rightarrow> js list" where
  "apply_fields fsel terms =
     (case fsel of
        None \<Rightarrow> terms
      | Some fs \<Rightarrow> if length fs > 0 then map (select_fields fs) terms else terms)"

definition apply_limit :: "nat option \<Rightarrow> js list \<Rightarrow> js list" where
  "apply_limit lmt terms =
     (case lmt of
        None \<Rightarrow> terms
      | Some l \<Rightarrow> if l \<noteq> 0 \<and> l < length terms then take l terms else terms)"

definition JNat :: "nat \<Rightarrow> js" where
  "JNat n = JNum (Finite (of_nat n))"

text \<open>What the handler does with the adapter's payload: every step after the remote call.\<close>

definition list_terms_output :: "runtime \<Rightarrow> ListTermsInput \<Rightarrow> js \<Rightarrow> error + tool_result" where
  "list_terms_output rt args res =
     (case extract_terms res of
        Inl e \<Rightarrow> Inl e
      | Inr terms0 \<Rightarrow>
         (case apply_search rt (search args) terms0 of
            Inl e \<Rightarrow> Inl e
          | Inr terms1 \<Rightarrow>
             (let terms2 = apply_fields (fields_opt args) terms1;
                  total = length terms2
              in if count_only args = Some True
                 then Inr [JSON_stringify (JObj [(''total'', JNat total)])]
                 else (let terms3 = apply_limit (limit args) terms2
                       in Inr [JSON_stringify (JObj [(''terms'', JArr terms3),
                                                     (''total'', JNat total)])]))))"

definition list_terms_form :: "number \<Rightarrow> ListTermsInput \<Rightarrow> (string \<times> jstext) list" where
  "list_terms_form pid args =
     [(''id'', NumberText pid)]
     @ (case language_opt args of
          Some l \<Rightarrow> if l \<noteq> [] then [(''language'', Text l)] else []
        | None \<Rightarrow> [])"

definition list_terms ::
  "runtime \<Rightarrow> config \<Rightarrow> remote \<Rightarrow> ListTermsInput \<Rightarrow> request list
   \<Rightarrow> (error + tool_result) \<times> request list" where
  "list_terms rt cfg net args trace =
    (case requireProjectId rt cfg (project_id args) of
       Inl e \<Rightarrow> (Inl e, trace)
     | Inr id' \<Rightarrow>
        (let form = list_terms_form id' args;
             (r, trace') = poeditor rt cfg net ''terms/list'' form trace
         in case r of
              Inl e \<Rightarrow> (Inl e, trace')
            | Inr res \<Rightarrow> (list_terms_output rt args res, trace')))"

text \<open>
  The search as the specification words it, to compare the filter with: the search text
  is a case-insensitive substring of the term text, of the context, or of the
  translation content of a reduced term.
\<close>

definition contains_ci :: "runtime \<Rightarrow> string \<Rightarrow> js \<Rightarrow> bool" where
  "contains_ci rt s v =
     (case v of JStr x \<Rightarrow> sublist (toLowerCase rt s) (toLowerCase rt x) | _ \<Rightarrow> False)"

definition search_matches :: "runtime \<Rightarrow> string \<Rightarrow> js \<Rightarrow> bool" where
  "search_matches rt s t =
     (contains_ci rt s (field t ''term'') \<or> contains_ci rt s (field t ''context'')
      \<or> contains_ci rt s (field t ''translation''))"

text \<open>A success payload of \<^verbatim>\<open>terms/list\<close> whose result lists the terms \<open>ts\<close>.\<close>

definition terms_payload :: "js list \<Rightarrow> js" where
  "terms_payload ts =
     JObj [(''response'', JObj [(''status'', JStr ''success'')]),
           (''result'', JObj [(''terms'', JArr ts)])]"

section \<open>The tool surface\<close>

text \<open>
  The server registers seven tools by name; a call names one of them and carries its
  validated arguments. \<open>explicit_project_id\<close> is what the handler passes to identifier
  resolution (\<^verbatim>\<open>args.project_id ?? null\<close>); the tool that lists all supported
  languages resolves no identifier.
\<close>

datatype tool_call =
    Call_add_translations TranslationsInput
  | Call_update_translations TranslationsInput
  | Call_list_terms ListTermsInput
  | Call_list_languages ListLanguagesInput
  | Call_list_available_languages
  | Call_add_language AddLanguageInput
  | Call_add_terms_with_translations AddTermsWithTranslationsInput

fun call_tool ::
  "runtime \<Rightarrow> config \<Rightarrow> remote \<Rightarrow> tool_call \<Rightarrow> request list
   \<Rightarrow> (error + tool_result) \<times> request list" where
  "call_tool rt cfg net (Call_add_translations args) trace = add_translations rt cfg net args trace"
| "call_tool rt cfg net (Call_update_translations args) trace = update_translations rt cfg net args trace"
| "call_tool rt cfg net (Call_list_terms args) trace = list_terms rt cfg net args trace"
| "call_tool rt cfg net (Call_list_languages args) trace = list_languages rt cfg net args trace"
| "call_tool rt cfg net Call_list_available_languages trace = list_available_languages rt cfg net trace"
| "call_tool rt cfg net (Call_add_language args) trace = add_language rt cfg net args trace"
| "call_tool rt cfg net (Call_add_terms_with_translations args) trace =
     add_terms_with_translations rt cfg net args trace"

fun explicit_project_id :: "tool_call \<Rightarrow> number option option" where
  "explicit_project_id (Call_add_translations args) = Some (project_id args)"
| "explicit_project_id (Call_update_translations args) = Some (project_id args)"
| "explicit_project_id (Call_list_terms args) = Some (project_id args)"
| "explicit_project_id (Call_list_languages args) = Some (project_id args)"
| "explicit_project_id Call_list_available_languages = None"
| "explicit_project_id (Call_add_language args) = Some (project_id args)"
| "explicit_project_id (Call_add_terms_with_translations args) = Some (project_id args)"

section \<open>A runtime and a remote service to evaluate with\<close>

text \<open>
  The theorems below hold for every runtime and every remote service. To run the model
  on concrete calls, \<open>sample_runtime\<close> tabulates the built-ins on the texts used here
  (each entry is what the language computes on that input; ASCII letters are lowered
  one by one), and \<open>scripted\<close> is a remote service that answers the n-th request with
  the n-th reply of a list.
\<close>

definition success_text :: string where
  \<open>success_text = ''{"response":{"status":"success","code":"200","message":"OK"}}''\<close>

definition success_json :: js where
  "success_json =
     JObj [(''response'', JObj [(''status'', JStr ''success''), (''code'', JStr ''200''),
                                (''message'', JStr ''OK'')])]"

definition fail_text :: string where
  \<open>fail_text = ''{"response":{"status":"fail","code":"4011","message":"Invalid API Token"}}''\<close>

definition fail_json :: js where
  "fail_json =
     JObj [(''response'', JObj [(''status'', JStr ''fail''), (''code'', JStr ''4011''),
                                (''message'', JStr ''Invalid API Token'')])]"

definition bare_fail_text :: string where
  \<open>bare_fail_text = ''{"response":{"status":"fail"}}''\<close>

definition bare_fail_json :: js where
  "bare_fail_json = JObj [(''response'', JObj [(''status'', JStr ''fail'')])]"

definition odd_fail_text :: string where
  \<open>odd_fail_text = ''{"response":{"status":"fail","code":{"toString":1},"message":"Invalid API Token"}}''\<close>

definition odd_fail_json :: js where
  "odd_fail_json =
     JObj [(''response'', JObj [(''status'', JStr ''fail''),
                                (''code'', JObj [(''toString'', JNum (Finite 1))]),
                                (''message'', JStr ''Invalid API Token'')])]"

definition html_text :: string where
  "html_text = ''<html>502 Bad Gateway</html>''"

definition greetings_text :: string where
  \<open>greetings_text = ''{"response":{"status":"success"},"result":{"terms":[{"term":"Hello world","context":""},{"term":"Goodbye","context":"farewell"}]}}''\<close>

definition greetings :: "js list" where
  "greetings =
     [JObj [(''term'', JStr ''Hello world''), (''context'', JStr [])],
      JObj [(''term'', JStr ''Goodbye''), (''context'', JStr ''farewell'')]]"

definition salutations_text :: string where
  \<open>salutations_text = ''{"response":{"status":"success"},"result":{"terms":[{"term":"Hello world"},{"term":"Goodbye"},{"term":"Hello there"}]}}''\<close>

definition salutations :: "js list" where
  "salutations =
     [JObj [(''term'', JStr ''Hello world'')],
      JObj [(''term'', JStr ''Goodbye'')],
      JObj [(''term'', JStr ''Hello there'')]]"

definition sample_parse :: "string \<Rightarrow> js option" where
  "sample_parse =
     map_of [(success_text, success_json), (fail_text, fail_json),
             (bare_fail_text, bare_fail_json), (odd_fail_text, odd_fail_json),
             (greetings_text, terms_payload greetings),
             (salutations_text, terms_payload salutations)]"

definition sample_number :: "string \<Rightarrow> number" where
  "sample_number s =
     (case map_of [(''42'', Finite 42), (''7'', Finite 7), (''0'', Finite 0)] s of
        Some n \<Rightarrow> n
      | None \<Rightarrow> NaN)"

definition sample_string :: "number \<Rightarrow> string" where
  "sample_string n = (if n = Finite 42 then ''42'' else if n = Finite 7 then ''7'' else ''NaN'')"

definition lower_char :: "char \<Rightarrow> char" where
  "lower_char c =
     (case map_of (zip ''ABCDEFGHIJKLMNOPQRSTUVWXYZ'' ''abcdefghijklmnopqrstuvwxyz'') c of
        Some d \<Rightarrow> d
      | None \<Rightarrow> c)"

definition sample_runtime :: runtime where
  "sample_runtime =
     \<lparr>JSON_parse = sample_parse, Number_of = sample_number, String_of = sample_string,
      toLowerCase = map lower_char\<rparr>"

definition sample_config :: config where
  "sample_config =
     \<lparr>API_BASE = ''https://api.poeditor.com/v2'', API_TOKEN = ''secret'', PROJECT_ID = None\<rparr>"

definition scripted :: "reply list \<Rightarrow> remote" where
  "scripted replies trace req =
     (if length trace < length replies then replies ! length trace
      else RequestFailed ''connection refused'')"

definition sample_items :: "translation_item list" where
  "sample_items =
     [\<lparr>i_term = ''Hello'', i_context = None, i_content = ''Hallo'', i_fuzzy = Some True,
       i_plural = None\<rparr>,
      \<lparr>i_term = ''apple'', i_context = Some ''fruit'', i_content = [], i_fuzzy = None,
       i_plural = Some \<lparr>one_form = Some ''Apfel'', few_form = None, many_form = None,
                        other_form = Some ''Aepfel''\<rparr>\<rparr>]"

definition greeting_item :: compound_item where
  "greeting_item =
     \<lparr>item_term = ''Hello'', item_context = None, item_reference = None, item_tags = None,
      item_translation = \<lparr>content = ''Hallo'', fuzzy = None, plural = None\<rparr>\<rparr>"

definition search_args :: "string \<Rightarrow> ListTermsInput" where
  "search_args s =
     \<lparr>project_id = Some (Finite 7), language_opt = None, limit = None, search = Some s,
      count_only = None, fields_opt = None\<rparr>"

definition fruit_item :: compound_item where
  "fruit_item =
     \<lparr>item_term = ''apple'', item_context = Some ''fruit'', item_reference = None,
      item_tags = Some [''food''],
      item_translation = \<lparr>content = ''Apfel'', fuzzy = Some True, plural = None\<rparr>\<rparr>"

lemmas sample_defs = sample_runtime_def sample_parse_def sample_config_def scripted_def
  success_text_def success_json_def fail_text_def fail_json_def bare_fail_text_def
  bare_fail_json_def odd_fail_text_def odd_fail_json_def html_text_def greetings_text_def
  greetings_def salutations_text_def salutations_def terms_payload_def

section \<open>Identifier resolution: the claims\<close>

lemma resolution_failure_stops_call:
  assumes "explicit_project_id call = Some arg"
      and "requireProjectId rt cfg arg = Inl e"
  shows "call_tool rt cfg net call trace = (Inl e, trace)"
  using assms
  by (cases call)
     (simp_all add: add_translations_def update_translations_def list_terms_def
        list_languages_def add_language_def add_terms_with_translations_def)

lemma missing_message_names_both:
  "sublist ''project_id''
     ''project_id is required (either pass it to the tool or set POEDITOR_PROJECT_ID)''
   \<and> sublist ''POEDITOR_PROJECT_ID''
     ''project_id is required (either pass it to the tool or set POEDITOR_PROJECT_ID)''"
  by (simp add: sublist_Cons_right)

text \<open>
  Claim C3. Identifier resolution returns an explicit per-call identifier \<open>x\<close> (a
  positive integer, as the schemas require); with no explicit identifier and a default
  configured whose text \<open>s\<close> is a positive integer, it returns that integer; with neither,
  it fails with an error whose message names both the per-call parameter
  \<^verbatim>\<open>project_id\<close> and the environment variable \<^verbatim>\<open>POEDITOR_PROJECT_ID\<close>, and every tool
  that resolves an identifier then fails with that error and leaves the list of requests
  as it was: no network call is attempted.
\<close>

theorem C3_identifier_resolution:
  "(positive_int x \<longrightarrow> requireProjectId rt cfg (Some x) = Inr x)
   \<and> (PROJECT_ID cfg = Some s \<and> s \<noteq> [] \<and> positive_int (Number_of rt s)
        \<longrightarrow> requireProjectId rt cfg None = Inr (Number_of rt s))
   \<and> (PROJECT_ID cfg = None \<longrightarrow>
        requireProjectId rt cfg None = Inl missing_project_id
        \<and> (\<exists>m. missing_project_id = Error m \<and> sublist ''project_id'' m
                 \<and> sublist ''POEDITOR_PROJECT_ID'' m)
        \<and> (explicit_project_id call = Some None
              \<longrightarrow> call_tool rt cfg net call trace = (Inl missing_project_id, trace)))"
proof (intro conjI impI)
  assume "positive_int x"
  then show "requireProjectId rt cfg (Some x) = Inr x"
    by (cases x) (simp_all add: requireProjectId_def)
next
  assume a: "PROJECT_ID cfg = Some s \<and> s \<noteq> [] \<and> positive_int (Number_of rt s)"
  then have "truthy_number (Number_of rt s)"
    by (cases "Number_of rt s") simp_all
  with a show "requireProjectId rt cfg None = Inr (Number_of rt s)"
    by (simp add: requireProjectId_def)
next
  assume "PROJECT_ID cfg = None"
  then show "requireProjectId rt cfg None = Inl missing_project_id"
    by (simp add: requireProjectId_def)
next
  show "\<exists>m. missing_project_id = Error m \<and> sublist ''project_id'' m
            \<and> sublist ''POEDITOR_PROJECT_ID'' m"
    unfolding missing_project_id_def using missing_message_names_both by blast
next
  assume n: "PROJECT_ID cfg = None" and c: "explicit_project_id call = Some None"
  from n have "requireProjectId rt cfg None = Inl missing_project_id"
    by (simp add: requireProjectId_def)
  with c show "call_tool rt cfg net call trace = (Inl missing_project_id, trace)"
    by (rule resolution_failure_stops_call)
qed

theorem C3_witness:
  "requireProjectId sample_runtime (sample_config\<lparr>PROJECT_ID := Some ''42''\<rparr>) (Some (Finite 7))
     = Inr (Finite 7)
   \<and> requireProjectId sample_runtime (sample_config\<lparr>PROJECT_ID := Some ''42''\<rparr>) None
     = Inr (Finite 42)
   \<and> requireProjectId sample_runtime sample_config None = Inl missing_project_id
   \<and> call_tool sample_runtime sample_config (scripted [ResponseText success_text])
        (Call_add_language \<lparr>project_id = None, language = ''de''\<rparr>) []
     = (Inl missing_project_id, [])"
  using C3_identifier_resolution
          [of "Finite 7" sample_runtime "sample_config\<lparr>PROJECT_ID := Some ''42''\<rparr>" "''42''"]
        C3_identifier_resolution
          [of "Finite 7" sample_runtime sample_config "''42''"
              "Call_add_language \<lparr>project_id = None, language = ''de''\<rparr>"
              "scripted [ResponseText success_text]" "[]"]
  by (simp add: sample_runtime_def sample_number_def sample_config_def)

text \<open>
  Claim C10. With no explicit identifier and \<^verbatim>\<open>POEDITOR_PROJECT_ID\<close> set to a text \<open>s\<close>:
  when \<open>s\<close> is empty or converts to zero or to not-a-number, resolution raises the
  missing-identifier error, exactly as with no default configured, and a tool that
  resolves an identifier fails with it before any request is made; when \<open>s\<close> converts to
  a nonzero number, that number is returned.
\<close>

theorem C10_default_not_a_nonzero_number:
  assumes "PROJECT_ID cfg = Some s"
  shows "(s = [] \<or> Number_of rt s = NaN \<or> Number_of rt s = Finite 0 \<longrightarrow>
            requireProjectId rt cfg None = Inl missing_project_id
            \<and> requireProjectId rt cfg None = requireProjectId rt (cfg\<lparr>PROJECT_ID := None\<rparr>) None
            \<and> (explicit_project_id call = Some None
                  \<longrightarrow> call_tool rt cfg net call trace = (Inl missing_project_id, trace)))
       \<and> (s \<noteq> [] \<and> Number_of rt s \<noteq> NaN \<and> Number_of rt s \<noteq> Finite 0 \<longrightarrow>
            requireProjectId rt cfg None = Inr (Number_of rt s))"
proof (intro conjI impI)
  assume bad: "s = [] \<or> Number_of rt s = NaN \<or> Number_of rt s = Finite 0"
  with assms show f: "requireProjectId rt cfg None = Inl missing_project_id"
    by (auto simp: requireProjectId_def)
  then show "requireProjectId rt cfg None = requireProjectId rt (cfg\<lparr>PROJECT_ID := None\<rparr>) None"
    by (simp add: requireProjectId_def)
  assume "explicit_project_id call = Some None"
  then show "call_tool rt cfg net call trace = (Inl missing_project_id, trace)"
    using f by (rule resolution_failure_stops_call)
next
  assume good: "s \<noteq> [] \<and> Number_of rt s \<noteq> NaN \<and> Number_of rt s \<noteq> Finite 0"
  then have "truthy_number (Number_of rt s)"
    by (cases "Number_of rt s") simp_all
  with assms good show "requireProjectId rt cfg None = Inr (Number_of rt s)"
    by (simp add: requireProjectId_def)
qed

theorem C10_witness:
  "requireProjectId sample_runtime (sample_config\<lparr>PROJECT_ID := Some ''0''\<rparr>) None
     = Inl missing_project_id
   \<and> requireProjectId sample_runtime (sample_config\<lparr>PROJECT_ID := Some ''abc''\<rparr>) None
     = Inl missing_project_id
   \<and> call_tool sample_runtime (sample_config\<lparr>PROJECT_ID := Some ''abc''\<rparr>) (scripted [])
        (Call_list_languages \<lparr>project_id = None\<rparr>) [] = (Inl missing_project_id, [])
   \<and> requireProjectId sample_runtime (sample_config\<lparr>PROJECT_ID := Some ''42''\<rparr>) None
     = Inr (Finite 42)"
  using C10_default_not_a_nonzero_number
          [of "sample_config\<lparr>PROJECT_ID := Some ''0''\<rparr>" "''0''" sample_runtime]
        C10_default_not_a_nonzero_number
          [of "sample_config\<lparr>PROJECT_ID := Some ''abc''\<rparr>" "''abc''" sample_runtime
              "Call_list_languages \<lparr>project_id = None\<rparr>" "scripted []" "[]"]
        C10_default_not_a_nonzero_number
          [of "sample_config\<lparr>PROJECT_ID := Some ''42''\<rparr>" "''42''" sample_runtime]
  by (simp add: sample_runtime_def sample_number_def)

section \<open>The remote call adapter: the claims\<close>

lemma ToString_stringable:
  "(stringable v \<longrightarrow> (\<exists>s. ToString rt v = Inr s))
     \<and> (\<not> stringable v \<longrightarrow> ToString rt v = Inl TypeError)"
  "(stringable_elements vs \<longrightarrow> (\<exists>s. join_elements rt vs = Inr s))
     \<and> (\<not> stringable_elements vs \<longrightarrow> join_elements rt vs = Inl TypeError)"
proof (induction rt v and rt vs rule: ToString_join_elements.induct)
  case (10 rt x y ys)
  then show ?case
    by (cases "nullish x") (auto split: sum.splits)
qed auto

lemma ToString_fails: "\<not> stringable v \<Longrightarrow> ToString rt v = Inl TypeError"
  using ToString_stringable(1) by blast

lemma ToString_succeeds: "stringable v \<Longrightarrow> \<exists>s. ToString rt v = Inr s"
  using ToString_stringable(1) by blast

lemma poeditor_failure:
  assumes "net trace (form_request cfg endpoint form) = ResponseText text"
      and "JSON_parse rt text = Some json"
      and "opt_prop (opt_prop json ''response'') ''status'' \<noteq> JStr ''success''"
  shows "fst (poeditor rt cfg net endpoint form trace) =
          (case ToString rt (coalesce (opt_prop (opt_prop json ''response'') ''code'') (JStr [])) of
             Inl e \<Rightarrow> Inl e
           | Inr code_text \<Rightarrow>
              (case ToString rt (js_or (opt_prop (opt_prop json ''response'') ''message'')
                                   (JStr ''Unknown POEditor error'')) of
                 Inl e \<Rightarrow> Inl e
               | Inr message_text \<Rightarrow>
                   Inl (Error (''POEditor API error '' @ code_text @ '': '' @ message_text))))"
  using assms by (simp add: poeditor_def Let_def split: sum.splits)

text \<open>
  Claim C5, as amended. When the remote replies with a body that parses as JSON, the
  adapter returns the parsed value if and only if \<^verbatim>\<open>response.status\<close> is the string
  \<^verbatim>\<open>success\<close>. For any other status, or none, it raises. When the remote's code and
  message convert to text, the error's message is \<^verbatim>\<open>POEditor API error\<close>, the code
  (nothing when the code is absent or null), a colon, and the message, or
  \<^verbatim>\<open>Unknown POEditor error\<close> when the remote's message is absent (or otherwise falsy).
  When the code or the message does not convert (an object with an own
  \<^verbatim>\<open>toString\<close> property, or an array holding one), a \<^verbatim>\<open>TypeError\<close> is raised instead.
\<close>

theorem C5_status_decides:
  assumes "net trace (form_request cfg endpoint form) = ResponseText text"
      and "JSON_parse rt text = Some json"
  shows "(fst (poeditor rt cfg net endpoint form trace) = Inr json
            \<longleftrightarrow> opt_prop (opt_prop json ''response'') ''status'' = JStr ''success'')
       \<and> (opt_prop (opt_prop json ''response'') ''status'' \<noteq> JStr ''success'' \<longrightarrow>
            (if stringable (coalesce (opt_prop (opt_prop json ''response'') ''code'') (JStr []))
                \<and> stringable (js_or (opt_prop (opt_prop json ''response'') ''message'')
                                 (JStr ''Unknown POEditor error''))
             then (\<exists>code_text message_text.
                     fst (poeditor rt cfg net endpoint form trace)
                       = Inl (Error (''POEditor API error '' @ code_text @ '': '' @ message_text))
                     \<and> ToString rt (coalesce (opt_prop (opt_prop json ''response'') ''code'')
                                      (JStr [])) = Inr code_text
                     \<and> ToString rt (js_or (opt_prop (opt_prop json ''response'') ''message'')
                                      (JStr ''Unknown POEditor error'')) = Inr message_text
                     \<and> (\<forall>c. opt_prop (opt_prop json ''response'') ''code'' = JStr c
                              \<longrightarrow> code_text = c)
                     \<and> (nullish (opt_prop (opt_prop json ''response'') ''code'')
                           \<longrightarrow> code_text = [])
                     \<and> (\<forall>m. opt_prop (opt_prop json ''response'') ''message'' = JStr m \<and> m \<noteq> []
                              \<longrightarrow> message_text = m)
                     \<and> (\<not> truthy (opt_prop (opt_prop json ''response'') ''message'')
                           \<longrightarrow> message_text = ''Unknown POEditor error''))
             else fst (poeditor rt cfg net endpoint form trace) = Inl TypeError))"
proof (intro conjI impI)
  show "fst (poeditor rt cfg net endpoint form trace) = Inr json
          \<longleftrightarrow> opt_prop (opt_prop json ''response'') ''status'' = JStr ''success''"
    using assms by (auto simp: poeditor_def Let_def split: sum.splits)
next
  let ?code = "coalesce (opt_prop (opt_prop json ''response'') ''code'') (JStr [])"
  let ?message = "js_or (opt_prop (opt_prop json ''response'') ''message'')
                    (JStr ''Unknown POEditor error'')"
  assume st: "opt_prop (opt_prop json ''response'') ''status'' \<noteq> JStr ''success''"
  note f = poeditor_failure [of net trace cfg endpoint form "text" rt json, OF assms st]
  show "if stringable ?code \<and> stringable ?message
        then (\<exists>code_text message_text.
                fst (poeditor rt cfg net endpoint form trace)
                  = Inl (Error (''POEditor API error '' @ code_text @ '': '' @ message_text))
                \<and> ToString rt ?code = Inr code_text
                \<and> ToString rt ?message = Inr message_text
                \<and> (\<forall>c. opt_prop (opt_prop json ''response'') ''code'' = JStr c \<longrightarrow> code_text = c)
                \<and> (nullish (opt_prop (opt_prop json ''response'') ''code'') \<longrightarrow> code_text = [])
                \<and> (\<forall>m. opt_prop (opt_prop json ''response'') ''message'' = JStr m \<and> m \<noteq> []
                         \<longrightarrow> message_text = m)
                \<and> (\<not> truthy (opt_prop (opt_prop json ''response'') ''message'')
                      \<longrightarrow> message_text = ''Unknown POEditor error''))
        else fst (poeditor rt cfg net endpoint form trace) = Inl TypeError"
  proof (cases "stringable ?code \<and> stringable ?message")
    case True
    then obtain c m where c: "ToString rt ?code = Inr c" and m: "ToString rt ?message = Inr m"
      using ToString_succeeds by blast
    from f c m have r: "fst (poeditor rt cfg net endpoint form trace)
                          = Inl (Error (''POEditor API error '' @ c @ '': '' @ m))"
      by simp
    from c have c1: "\<forall>x. opt_prop (opt_prop json ''response'') ''code'' = JStr x \<longrightarrow> c = x"
      by (auto simp: coalesce_def)
    from c have c2: "nullish (opt_prop (opt_prop json ''response'') ''code'') \<longrightarrow> c = []"
      by (auto simp: coalesce_def)
    from m have m1: "\<forall>x. opt_prop (opt_prop json ''response'') ''message'' = JStr x \<and> x \<noteq> []
                       \<longrightarrow> m = x"
      by (auto simp: js_or_def)
    from m have m2: "\<not> truthy (opt_prop (opt_prop json ''response'') ''message'')
                       \<longrightarrow> m = ''Unknown POEditor error''"
      by (auto simp: js_or_def)
    from True r c m c1 c2 m1 m2 show ?thesis by auto
  next
    case False
    then have "ToString rt ?code = Inl TypeError
               \<or> (\<exists>c. ToString rt ?code = Inr c) \<and> ToString rt ?message = Inl TypeError"
      using ToString_fails ToString_succeeds by blast
    with f have "fst (poeditor rt cfg net endpoint form trace) = Inl TypeError"
      by auto
    with False show ?thesis by simp
  qed
qed

theorem C5_witness:
  "fst (poeditor sample_runtime sample_config (scripted [ResponseText success_text])
          ''languages/list'' [(''id'', NumberText (Finite 7))] []) = Inr success_json
   \<and> fst (poeditor sample_runtime sample_config (scripted [ResponseText fail_text])
          ''languages/list'' [(''id'', NumberText (Finite 7))] [])
       = Inl (Error ''POEditor API error 4011: Invalid API Token'')
   \<and> fst (poeditor sample_runtime sample_config (scripted [ResponseText bare_fail_text])
          ''languages/list'' [(''id'', NumberText (Finite 7))] [])
       = Inl (Error ''POEditor API error : Unknown POEditor error'')"
  using C5_status_decides
          [of "scripted [ResponseText success_text]" "[]" sample_config "''languages/list''"
              "[(''id'', NumberText (Finite 7))]" success_text sample_runtime success_json]
        C5_status_decides
          [of "scripted [ResponseText fail_text]" "[]" sample_config "''languages/list''"
              "[(''id'', NumberText (Finite 7))]" fail_text sample_runtime fail_json]
        C5_status_decides
          [of "scripted [ResponseText bare_fail_text]" "[]" sample_config "''languages/list''"
              "[(''id'', NumberText (Finite 7))]" bare_fail_text sample_runtime bare_fail_json]
  by (simp add: sample_defs opt_prop_def coalesce_def js_or_def)

text \<open>
  The claim as stated fails: for a body that parses, with status \<^verbatim>\<open>fail\<close> and a code
  that is an object with an own \<^verbatim>\<open>toString\<close> property, what the adapter raises is a
  \<^verbatim>\<open>TypeError\<close>, not an error built from the remote's code and message.
\<close>

theorem C5_counterexample:
  "JSON_parse sample_runtime odd_fail_text = Some odd_fail_json
   \<and> opt_prop (opt_prop odd_fail_json ''response'') ''status'' = JStr ''fail''
   \<and> opt_prop (opt_prop odd_fail_json ''response'') ''message'' = JStr ''Invalid API Token''
   \<and> fst (poeditor sample_runtime sample_config (scripted [ResponseText odd_fail_text])
          ''languages/list'' [(''id'', NumberText (Finite 7))] []) = Inl TypeError"
  by (simp add: poeditor_def Let_def sample_defs opt_prop_def coalesce_def js_or_def)

text \<open>
  Claim C6. When the body of the remote's reply does not parse as JSON, the adapter
  raises the error \<^verbatim>\<open>POEditor: invalid JSON response:\<close> followed by the raw body text,
  so the message includes that text, and it returns no payload (the request has been
  made).
\<close>

theorem C6_malformed_body:
  assumes "net trace (form_request cfg endpoint form) = ResponseText text"
      and "JSON_parse rt text = None"
  shows "poeditor rt cfg net endpoint form trace
           = (Inl (Error (''POEditor: invalid JSON response: '' @ text)),
              trace @ [form_request cfg endpoint form])
       \<and> sublist text (''POEditor: invalid JSON response: '' @ text)
       \<and> (\<forall>payload. fst (poeditor rt cfg net endpoint form trace) \<noteq> Inr payload)"
proof -
  have r: "poeditor rt cfg net endpoint form trace
           = (Inl (Error (''POEditor: invalid JSON response: '' @ text)),
              trace @ [form_request cfg endpoint form])"
    using assms by (simp add: poeditor_def Let_def)
  have s: "sublist text (''POEditor: invalid JSON response: '' @ text)"
    by (rule sublist_append_leftI)
  from r have n: "\<forall>payload. fst (poeditor rt cfg net endpoint form trace) \<noteq> Inr payload"
    by simp
  from r s n show ?thesis by blast
qed

theorem C6_witness:
  "fst (poeditor sample_runtime sample_config (scripted [ResponseText html_text])
          ''terms/list'' [(''id'', NumberText (Finite 7))] [])
     = Inl (Error ''POEditor: invalid JSON response: <html>502 Bad Gateway</html>'')
   \<and> length (snd (poeditor sample_runtime sample_config (scripted [ResponseText html_text])
          ''terms/list'' [(''id'', NumberText (Finite 7))] [])) = 1"
  using C6_malformed_body
          [of "scripted [ResponseText html_text]" "[]" sample_config "''terms/list''"
              "[(''id'', NumberText (Finite 7))]" html_text sample_runtime]
  by (simp add: sample_defs)

lemma poeditor_trace:
  "snd (poeditor rt cfg net endpoint form trace) = trace @ [form_request cfg endpoint form]"
  by (simp add: poeditor_def Let_def split: reply.splits option.splits sum.splits)

section \<open>Translation payloads: the claims\<close>

lemma serial_plural_js:
  "serial (plural_js p) =
     JObj ((case one_form p of Some s \<Rightarrow> [(''one'', JStr s)] | None \<Rightarrow> [])
         @ (case few_form p of Some s \<Rightarrow> [(''few'', JStr s)] | None \<Rightarrow> [])
         @ (case many_form p of Some s \<Rightarrow> [(''many'', JStr s)] | None \<Rightarrow> [])
         @ (case other_form p of Some s \<Rightarrow> [(''other'', JStr s)] | None \<Rightarrow> []))"
  by (simp add: plural_js_def opt_str_def split: option.splits)

lemma serial_translation_record:
  "serial (translation_record i) =
     JObj [(''term'', JStr (i_term i)),
           (''context'', JStr (case i_context i of Some c \<Rightarrow> c | None \<Rightarrow> [])),
           (''translation'',
              (case i_plural i of
                 Some p \<Rightarrow> JObj [(''plural'', serial (plural_js p))]
               | None \<Rightarrow> JObj [(''content'', JStr (i_content i)),
                               (''fuzzy'', JNum (Finite (if i_fuzzy i = Some True then 1 else 0)))]))]"
  by (simp add: translation_record_def coalesce_def opt_str_def plural_js_def split: option.splits)

lemma stringify_translation_records:
  "JSON_stringify (JArr (map translation_record xs))
     = JsonText (JArr (map (\<lambda>i. serial (translation_record i)) xs))"
  by (simp add: JSON_stringify_def translation_record_def)

text \<open>
  Claim C4. add\_translations and update\_translations make one request whose
  \<^verbatim>\<open>data\<close> holds one record per item, in order. Each record has exactly the keys term,
  context and translation: the context is the item's, and the empty string (the key is
  there) when the item has none; the translation is \<^verbatim>\<open>{plural}\<close> alone, holding the
  plural forms the item gives, when the item has a plural map, and otherwise exactly
  \<^verbatim>\<open>{content, fuzzy}\<close> with fuzzy 1 when the item's flag is true and 0 when it is false
  or absent.
\<close>

theorem C4_translation_records:
  assumes "requireProjectId rt cfg (project_id args) = Inr pid"
  shows "snd (add_translations rt cfg net args trace)
           = trace @ [form_request cfg ''translations/add''
                        [(''id'', NumberText pid), (''language'', Text (language args)),
                         (''data'', JsonText (JArr (map (\<lambda>i. serial (translation_record i))
                                                      (items args))))]]
       \<and> snd (update_translations rt cfg net args trace)
           = trace @ [form_request cfg ''translations/update''
                        [(''id'', NumberText pid), (''language'', Text (language args)),
                         (''data'', JsonText (JArr (map (\<lambda>i. serial (translation_record i))
                                                      (items args))))]]
       \<and> (\<forall>i. serial (translation_record i) =
               JObj [(''term'', JStr (i_term i)),
                     (''context'', JStr (case i_context i of Some c \<Rightarrow> c | None \<Rightarrow> [])),
                     (''translation'',
                        (case i_plural i of
                           Some p \<Rightarrow> JObj [(''plural'', serial (plural_js p))]
                         | None \<Rightarrow> JObj [(''content'', JStr (i_content i)),
                                         (''fuzzy'', JNum (Finite (if i_fuzzy i = Some True
                                                                   then 1 else 0)))]))])
       \<and> (\<forall>p. serial (plural_js p) =
               JObj ((case one_form p of Some s \<Rightarrow> [(''one'', JStr s)] | None \<Rightarrow> [])
                   @ (case few_form p of Some s \<Rightarrow> [(''few'', JStr s)] | None \<Rightarrow> [])
                   @ (case many_form p of Some s \<Rightarrow> [(''many'', JStr s)] | None \<Rightarrow> [])
                   @ (case other_form p of Some s \<Rightarrow> [(''other'', JStr s)] | None \<Rightarrow> [])))"
proof (intro conjI allI)
  show "snd (add_translations rt cfg net args trace)
           = trace @ [form_request cfg ''translations/add''
                        [(''id'', NumberText pid), (''language'', Text (language args)),
                         (''data'', JsonText (JArr (map (\<lambda>i. serial (translation_record i))
                                                      (items args))))]]"
    using assms
    by (simp add: add_translations_def Let_def case_prod_beta poeditor_trace
          stringify_translation_records split: sum.splits)
  show "snd (update_translations rt cfg net args trace)
           = trace @ [form_request cfg ''translations/update''
                        [(''id'', NumberText pid), (''language'', Text (language args)),
                         (''data'', JsonText (JArr (map (\<lambda>i. serial (translation_record i))
                                                      (items args))))]]"
    using assms
    by (simp add: update_translations_def Let_def case_prod_beta poeditor_trace
          stringify_translation_records split: sum.splits)
qed (rule serial_translation_record, rule serial_plural_js)

theorem C4_witness:
  "snd (add_translations sample_runtime sample_config (scripted [ResponseText success_text])
          \<lparr>project_id = Some (Finite 7), language = ''de'', items = sample_items\<rparr> [])
     = [\<lparr>url = ''https://api.poeditor.com/v2/translations/add'',
         body = [(''api_token'', Text ''secret''), (''id'', NumberText (Finite 7)),
                 (''language'', Text ''de''),
                 (''data'', JsonText (JArr
                    [JObj [(''term'', JStr ''Hello''), (''context'', JStr []),
                           (''translation'', JObj [(''content'', JStr ''Hallo''),
                                                   (''fuzzy'', JNum (Finite 1))])],
                     JObj [(''term'', JStr ''apple''), (''context'', JStr ''fruit''),
                           (''translation'', JObj [(''plural'',
                              JObj [(''one'', JStr ''Apfel''), (''other'', JStr ''Aepfel'')])])]]))]\<rparr>]"
  using C4_translation_records
          [of sample_runtime sample_config
              "\<lparr>project_id = Some (Finite 7), language = ''de'', items = sample_items\<rparr>"
              "Finite 7" "scripted [ResponseText success_text]" "[]"]
  by (simp add: requireProjectId_def form_request_def sample_config_def sample_items_def)

section \<open>The compound operation: the claims\<close>

lemma compound_unfold:
  assumes "requireProjectId rt cfg (project_id args) = Inr pid"
  shows "add_terms_with_translations rt cfg net args trace =
          (case fst (poeditor rt cfg net ''terms/add'' (terms_add_form pid (items args)) trace) of
             Inl e \<Rightarrow> (Inl e, trace @ [form_request cfg ''terms/add'' (terms_add_form pid (items args))])
           | Inr termRes \<Rightarrow>
              (case fst (poeditor rt cfg net ''translations/add''
                           (translations_add_form pid (language args) (items args))
                           (trace @ [form_request cfg ''terms/add'' (terms_add_form pid (items args))])) of
                 Inl e \<Rightarrow> (Inl e, trace @ [form_request cfg ''terms/add'' (terms_add_form pid (items args)),
                                          form_request cfg ''translations/add''
                                            (translations_add_form pid (language args) (items args))])
               | Inr translationRes \<Rightarrow>
                   (combined_result termRes translationRes,
                    trace @ [form_request cfg ''terms/add'' (terms_add_form pid (items args)),
                             form_request cfg ''translations/add''
                               (translations_add_form pid (language args) (items args))])))"
  using assms
  by (simp add: add_terms_with_translations_def Let_def case_prod_beta poeditor_trace
        terms_add_form_def translations_add_form_def split: sum.splits)

lemma term_record_context:
  "field (serial (term_record item)) ''context'' = opt_str (item_context item)
   \<and> has_key (serial (term_record item)) ''context'' = (item_context item \<noteq> None)"
  by (simp add: term_record_def opt_str_def split: option.splits)

lemma compound_translation_record_context:
  "field (serial (compound_translation_record item)) ''context''
     = JStr (case item_context item of Some c \<Rightarrow> c | None \<Rightarrow> [])"
  by (simp add: compound_translation_record_def coalesce_def opt_str_def plural_js_def
        split: option.splits)

lemma sent_terms_add:
  "sent_records (form_request cfg ''terms/add'' (terms_add_form pid its))
     = map (\<lambda>item. serial (term_record item)) its"
  by (simp add: sent_records_def form_request_def terms_add_form_def JSON_stringify_def
        term_record_def)

lemma sent_translations_add:
  "sent_records (form_request cfg ''translations/add'' (translations_add_form pid lang its))
     = map (\<lambda>item. serial (compound_translation_record item)) its"
  by (simp add: sent_records_def form_request_def translations_add_form_def JSON_stringify_def
        compound_translation_record_def)

text \<open>
  Claim C1, as amended. The compound operation first posts to \<^verbatim>\<open>terms/add\<close> and then,
  if that call succeeded, to \<^verbatim>\<open>translations/add\<close>, one record per item in each. For an
  item with an explicit context, both records carry that context. For an item with no
  explicit context, the add-term record has no context key at all (its value is
  \<^verbatim>\<open>undefined\<close>, which \<^verbatim>\<open>JSON.stringify\<close> leaves out), while the add-translation record
  carries the empty string.
\<close>

theorem C1_compound_contexts:
  assumes "requireProjectId rt cfg (project_id args) = Inr pid"
  shows "(\<exists>r1 rest. snd (add_terms_with_translations rt cfg net args trace) = trace @ r1 # rest
            \<and> url r1 = API_BASE cfg @ ''/terms/add''
            \<and> sent_contexts r1 = map (\<lambda>item. opt_str (item_context item)) (items args)
            \<and> (rest = [] \<or> (\<exists>r2. rest = [r2]
                  \<and> url r2 = API_BASE cfg @ ''/translations/add''
                  \<and> sent_contexts r2
                      = map (\<lambda>item. JStr (case item_context item of Some c \<Rightarrow> c | None \<Rightarrow> []))
                          (items args))))
       \<and> (\<forall>item c. item_context item = Some c \<longrightarrow>
             field (serial (term_record item)) ''context'' = JStr c
             \<and> field (serial (compound_translation_record item)) ''context'' = JStr c)
       \<and> (\<forall>item. item_context item = None \<longrightarrow>
             \<not> has_key (serial (term_record item)) ''context''
             \<and> field (serial (compound_translation_record item)) ''context'' = JStr [])"
proof (intro conjI allI impI)
  let ?r1 = "form_request cfg ''terms/add'' (terms_add_form pid (items args))"
  let ?r2 = "form_request cfg ''translations/add''
               (translations_add_form pid (language args) (items args))"
  have c1: "sent_contexts ?r1 = map (\<lambda>item. opt_str (item_context item)) (items args)"
    by (simp add: sent_contexts_def sent_terms_add term_record_context)
  have c2: "sent_contexts ?r2
              = map (\<lambda>item. JStr (case item_context item of Some c \<Rightarrow> c | None \<Rightarrow> []))
                  (items args)"
    by (simp add: sent_contexts_def sent_translations_add compound_translation_record_context)
  have u1: "url ?r1 = API_BASE cfg @ ''/terms/add''"
    by (simp add: form_request_def)
  have u2: "url ?r2 = API_BASE cfg @ ''/translations/add''"
    by (simp add: form_request_def)
  have "snd (add_terms_with_translations rt cfg net args trace) = trace @ ?r1 # []
        \<or> snd (add_terms_with_translations rt cfg net args trace) = trace @ ?r1 # [?r2]"
    by (simp add: compound_unfold [OF assms] split: sum.splits)
  with c1 c2 u1 u2
  show "\<exists>r1 rest. snd (add_terms_with_translations rt cfg net args trace) = trace @ r1 # rest
            \<and> url r1 = API_BASE cfg @ ''/terms/add''
            \<and> sent_contexts r1 = map (\<lambda>item. opt_str (item_context item)) (items args)
            \<and> (rest = [] \<or> (\<exists>r2. rest = [r2]
                  \<and> url r2 = API_BASE cfg @ ''/translations/add''
                  \<and> sent_contexts r2
                      = map (\<lambda>item. JStr (case item_context item of Some c \<Rightarrow> c | None \<Rightarrow> []))
                          (items args)))"
    by blast
next
  fix item :: compound_item and c assume "item_context item = Some c"
  then show "field (serial (term_record item)) ''context'' = JStr c"
    by (simp add: term_record_context opt_str_def)
next
  fix item :: compound_item and c assume "item_context item = Some c"
  then show "field (serial (compound_translation_record item)) ''context'' = JStr c"
    by (simp add: compound_translation_record_context)
next
  fix item :: compound_item assume "item_context item = None"
  then show "\<not> has_key (serial (term_record item)) ''context''"
    by (simp add: term_record_context)
next
  fix item :: compound_item assume "item_context item = None"
  then show "field (serial (compound_translation_record item)) ''context'' = JStr []"
    by (simp add: compound_translation_record_context)
qed

theorem C1_witness:
  "map sent_contexts
     (snd (add_terms_with_translations sample_runtime sample_config
             (scripted [ResponseText success_text, ResponseText success_text])
             \<lparr>project_id = Some (Finite 7), language = ''de'',
              items = [fruit_item, greeting_item]\<rparr> []))
     = [[JStr ''fruit'', JUndefined], [JStr ''fruit'', JStr []]]
   \<and> field (serial (term_record fruit_item)) ''context'' = JStr ''fruit''
   \<and> field (serial (compound_translation_record fruit_item)) ''context'' = JStr ''fruit''
   \<and> \<not> has_key (serial (term_record greeting_item)) ''context''
   \<and> field (serial (compound_translation_record greeting_item)) ''context'' = JStr []"
  using C1_compound_contexts
          [of sample_runtime sample_config
              "\<lparr>project_id = Some (Finite 7), language = ''de'',
                items = [fruit_item, greeting_item]\<rparr>"
              "Finite 7" "scripted [ResponseText success_text, ResponseText success_text]" "[]"]
  by (simp add: add_terms_with_translations_def requireProjectId_def poeditor_def Let_def
        sample_defs opt_prop_def form_request_def JSON_stringify_def term_record_def
        compound_translation_record_def greeting_item_def fruit_item_def sent_contexts_def
        sent_records_def coalesce_def opt_str_def)

text \<open>
  The claim as stated fails: for one item with no explicit context, the contexts
  transmitted by the two calls are an absent value in the first and the empty string in
  the second.
\<close>

theorem C1_counterexample:
  "map sent_contexts
     (snd (add_terms_with_translations sample_runtime sample_config
             (scripted [ResponseText success_text, ResponseText success_text])
             \<lparr>project_id = Some (Finite 7), language = ''de'', items = [greeting_item]\<rparr> []))
     = [[JUndefined], [JStr []]]
   \<and> [JUndefined] \<noteq> [JStr []]"
  by (simp add: add_terms_with_translations_def requireProjectId_def poeditor_def Let_def
        sample_defs opt_prop_def form_request_def JSON_stringify_def term_record_def
        compound_translation_record_def greeting_item_def sent_contexts_def sent_records_def
        coalesce_def opt_str_def)

text \<open>
  Claim C2. Once the identifier is resolved, the compound operation posts to
  \<^verbatim>\<open>terms/add\<close> first. If that call raises, the operation fails with the same error and
  the only request made is that one: \<^verbatim>\<open>translations/add\<close> is never attempted. If it
  succeeds, the requests made are exactly the post to \<^verbatim>\<open>terms/add\<close> followed by the
  post to \<^verbatim>\<open>translations/add\<close>; when the second raises, the operation fails with that
  error and nothing further is sent, so the first call is not undone.
\<close>

theorem C2_compound_ordering:
  assumes "requireProjectId rt cfg (project_id args) = Inr pid"
  shows "(\<forall>e. fst (poeditor rt cfg net ''terms/add'' (terms_add_form pid (items args)) trace) = Inl e
            \<longrightarrow> add_terms_with_translations rt cfg net args trace
                  = (Inl e, trace @ [form_request cfg ''terms/add'' (terms_add_form pid (items args))]))
       \<and> (\<forall>termRes. fst (poeditor rt cfg net ''terms/add'' (terms_add_form pid (items args)) trace)
                       = Inr termRes
            \<longrightarrow> snd (add_terms_with_translations rt cfg net args trace)
                  = trace @ [form_request cfg ''terms/add'' (terms_add_form pid (items args)),
                             form_request cfg ''translations/add''
                               (translations_add_form pid (language args) (items args))]
                \<and> (\<forall>e. fst (poeditor rt cfg net ''translations/add''
                                (translations_add_form pid (language args) (items args))
                                (trace @ [form_request cfg ''terms/add''
                                            (terms_add_form pid (items args))])) = Inl e
                       \<longrightarrow> fst (add_terms_with_translations rt cfg net args trace) = Inl e))"
  by (simp add: compound_unfold [OF assms] split: sum.splits)

theorem C2_witness:
  "add_terms_with_translations sample_runtime sample_config
     (scripted [ResponseText fail_text, ResponseText success_text])
     \<lparr>project_id = Some (Finite 7), language = ''de'', items = [greeting_item]\<rparr> []
     = (Inl (Error ''POEditor API error 4011: Invalid API Token''),
        [form_request sample_config ''terms/add'' (terms_add_form (Finite 7) [greeting_item])])
   \<and> snd (add_terms_with_translations sample_runtime sample_config
         (scripted [ResponseText success_text, ResponseText fail_text])
         \<lparr>project_id = Some (Finite 7), language = ''de'', items = [greeting_item]\<rparr> [])
     = [form_request sample_config ''terms/add'' (terms_add_form (Finite 7) [greeting_item]),
        form_request sample_config ''translations/add''
          (translations_add_form (Finite 7) ''de'' [greeting_item])]
   \<and> fst (add_terms_with_translations sample_runtime sample_config
         (scripted [ResponseText success_text, ResponseText fail_text])
         \<lparr>project_id = Some (Finite 7), language = ''de'', items = [greeting_item]\<rparr> [])
     = Inl (Error ''POEditor API error 4011: Invalid API Token'')"
  using C2_compound_ordering
          [of sample_runtime sample_config
              "\<lparr>project_id = Some (Finite 7), language = ''de'', items = [greeting_item]\<rparr>"
              "Finite 7" "scripted [ResponseText fail_text, ResponseText success_text]" "[]"]
        C2_compound_ordering
          [of sample_runtime sample_config
              "\<lparr>project_id = Some (Finite 7), language = ''de'', items = [greeting_item]\<rparr>"
              "Finite 7" "scripted [ResponseText success_text, ResponseText fail_text]" "[]"]
  by (simp add: requireProjectId_def poeditor_def Let_def sample_defs opt_prop_def
        coalesce_def js_or_def)

section \<open>Listing terms: the claims\<close>

lemma lower_includes_contains:
  "lower_includes rt (toLowerCase rt s) v = Inr b \<Longrightarrow> b = contains_ci rt s v"
  by (cases v) (auto simp: contains_ci_def)

lemma search_predicate_matches:
  assumes "search_predicate rt (toLowerCase rt s) t = Inr b"
  shows "b = search_matches rt s t"
  using assms
  by (auto simp: search_predicate_def search_matches_def
        split: sum.splits bool.splits dest: lower_includes_contains)

lemma filter_err_filter:
  assumes "\<And>x b. p x = Inr b \<Longrightarrow> b = q x"
  shows "filter_err p xs = Inr ys \<Longrightarrow> ys = filter q xs"
proof (induction xs arbitrary: ys)
  case Nil
  then show ?case by simp
next
  case (Cons x xs)
  then show ?case
    using assms by (auto split: sum.splits)
qed

lemma apply_search_filter:
  assumes "apply_search rt (Some s) ts = Inr ts'" and "s \<noteq> []"
  shows "ts' = filter (search_matches rt s) ts"
  using assms
        filter_err_filter [of "search_predicate rt (toLowerCase rt s)" "search_matches rt s" ts ts']
        search_predicate_matches
  by (simp add: apply_search_def)

lemma length_apply_fields: "length (apply_fields fs ts) = length ts"
  by (simp add: apply_fields_def split: option.splits)

lemma list_terms_success:
  assumes "list_terms rt cfg net args trace = (Inr out, trace')"
  shows "\<exists>pid res. requireProjectId rt cfg (project_id args) = Inr pid
           \<and> poeditor rt cfg net ''terms/list'' (list_terms_form pid args) trace = (Inr res, trace')
           \<and> list_terms_output rt args res = Inr out"
  using assms
  by (auto simp: list_terms_def Let_def split: sum.splits prod.splits)

lemma list_terms_output_success:
  assumes "list_terms_output rt args res = Inr out"
  shows "\<exists>terms0 terms1. extract_terms res = Inr terms0
           \<and> apply_search rt (search args) terms0 = Inr terms1
           \<and> out = (if count_only args = Some True
                    then [JSON_stringify (JObj [(''total'', JNat (length terms1))])]
                    else [JSON_stringify
                            (JObj [(''terms'', JArr (apply_limit (limit args)
                                                       (apply_fields (fields_opt args) terms1))),
                                   (''total'', JNat (length terms1))])])"
  using assms
  by (auto simp: list_terms_output_def Let_def length_apply_fields split: sum.splits if_splits)

lemmas list_terms_eval = list_terms_def list_terms_form_def list_terms_output_def
  requireProjectId_def poeditor_def form_request_def extract_terms_def reduce_term_def
  read_prop_def opt_prop_def js_or_def coalesce_def apply_search_def search_predicate_def
  apply_fields_def select_fields_def apply_limit_def JSON_stringify_def JNat_def Let_def
  lower_char_def sublist_Cons_right search_args_def

lemma count_run:
  "list_terms sample_runtime sample_config (scripted [ResponseText greetings_text])
     ((search_args ''HELLO'')\<lparr>count_only := Some True\<rparr>) []
   = (Inr [JsonText (JObj [(''total'', JNum (Finite 1))])],
      [form_request sample_config ''terms/list'' [(''id'', NumberText (Finite 7))]])"
  by (simp add: list_terms_eval sample_defs)

lemma search_run:
  "list_terms sample_runtime sample_config (scripted [ResponseText greetings_text])
     (search_args ''hELLo'') []
   = (Inr [JsonText (JObj [(''terms'', JArr [JObj [(''term'', JStr ''Hello world'')]]),
                           (''total'', JNum (Finite 1))])],
      [form_request sample_config ''terms/list'' [(''id'', NumberText (Finite 7))]])"
  by (simp add: list_terms_eval sample_defs)

text \<open>
  Claim C7. When a list\_terms call with count\_only requested succeeds, its content is
  the single text of an object whose only field is \<^verbatim>\<open>total\<close> (no list of terms), and
  the total is the number of reduced terms left after the search filter and the field
  projection.
\<close>

theorem C7_count_only:
  assumes "count_only args = Some True"
      and "list_terms rt cfg net args trace = (Inr out, trace')"
  shows "\<exists>pid res terms0 terms1.
           poeditor rt cfg net ''terms/list'' (list_terms_form pid args) trace = (Inr res, trace')
           \<and> extract_terms res = Inr terms0
           \<and> apply_search rt (search args) terms0 = Inr terms1
           \<and> out = [JsonText (JObj [(''total'',
                        JNum (Finite (of_nat (length (apply_fields (fields_opt args) terms1)))))])]"
proof -
  from assms(2) obtain pid res where
    p: "poeditor rt cfg net ''terms/list'' (list_terms_form pid args) trace = (Inr res, trace')"
    and o: "list_terms_output rt args res = Inr out"
    using list_terms_success by blast
  from o assms(1) obtain terms0 terms1 where
    e: "extract_terms res = Inr terms0" and a: "apply_search rt (search args) terms0 = Inr terms1"
    and out: "out = [JSON_stringify (JObj [(''total'', JNat (length terms1))])]"
    using list_terms_output_success [of rt args res out] by auto
  from out have "out = [JsonText (JObj [(''total'',
                        JNum (Finite (of_nat (length (apply_fields (fields_opt args) terms1)))))])]"
    by (simp add: JSON_stringify_def JNat_def length_apply_fields)
  with p e a show ?thesis by blast
qed

theorem C7_witness:
  "count_only ((search_args ''HELLO'')\<lparr>count_only := Some True\<rparr>) = Some True
   \<and> list_terms sample_runtime sample_config (scripted [ResponseText greetings_text])
         ((search_args ''HELLO'')\<lparr>count_only := Some True\<rparr>) []
       = (Inr [JsonText (JObj [(''total'', JNum (Finite 1))])],
          [form_request sample_config ''terms/list'' [(''id'', NumberText (Finite 7))]])
   \<and> (\<exists>pid res terms0 terms1.
         poeditor sample_runtime sample_config (scripted [ResponseText greetings_text]) ''terms/list''
           (list_terms_form pid ((search_args ''HELLO'')\<lparr>count_only := Some True\<rparr>)) []
           = (Inr res, [form_request sample_config ''terms/list'' [(''id'', NumberText (Finite 7))]])
         \<and> extract_terms res = Inr terms0
         \<and> apply_search sample_runtime (search ((search_args ''HELLO'')\<lparr>count_only := Some True\<rparr>))
               terms0 = Inr terms1
         \<and> [JsonText (JObj [(''total'', JNum (Finite 1))])]
             = [JsonText (JObj [(''total'', JNum (Finite (of_nat (length
                  (apply_fields (fields_opt ((search_args ''HELLO'')\<lparr>count_only := Some True\<rparr>))
                     terms1)))))])])"
proof -
  have h1: "count_only ((search_args ''HELLO'')\<lparr>count_only := Some True\<rparr>) = Some True"
    by simp
  have h2: "list_terms sample_runtime sample_config (scripted [ResponseText greetings_text])
         ((search_args ''HELLO'')\<lparr>count_only := Some True\<rparr>) []
       = (Inr [JsonText (JObj [(''total'', JNum (Finite 1))])],
          [form_request sample_config ''terms/list'' [(''id'', NumberText (Finite 7))]])"
    by (rule count_run)
  from h1 h2 C7_count_only [OF h1 h2] show ?thesis by blast
qed

text \<open>
  Claim C8, as amended. When a list\_terms call with a non-empty search string succeeds,
  the terms left by the filter are exactly the reduced terms for which the search text
  is a case-insensitive substring of the term text, the context or the translation
  content, in the remote's order. The total is their number. Unless count\_only is
  requested, the returned list is those terms, projected on the requested fields, and
  cut to its first \<^verbatim>\<open>limit\<close> terms when a limit smaller than their number is given.
\<close>

theorem C8_search_filter:
  assumes "search args = Some s" and "s \<noteq> []"
      and "list_terms rt cfg net args trace = (Inr out, trace')"
  shows "\<exists>pid res terms0.
           poeditor rt cfg net ''terms/list'' (list_terms_form pid args) trace = (Inr res, trace')
           \<and> extract_terms res = Inr terms0
           \<and> out = (if count_only args = Some True
                    then [JSON_stringify
                            (JObj [(''total'', JNat (length (filter (search_matches rt s) terms0)))])]
                    else [JSON_stringify
                            (JObj [(''terms'',
                                     JArr (apply_limit (limit args)
                                             (apply_fields (fields_opt args)
                                                (filter (search_matches rt s) terms0)))),
                                   (''total'', JNat (length (filter (search_matches rt s) terms0)))])])"
proof -
  from assms(3) obtain pid res where
    p: "poeditor rt cfg net ''terms/list'' (list_terms_form pid args) trace = (Inr res, trace')"
    and o: "list_terms_output rt args res = Inr out"
    using list_terms_success by blast
  from o obtain terms0 terms1 where
    e: "extract_terms res = Inr terms0" and a: "apply_search rt (search args) terms0 = Inr terms1"
    and out: "out = (if count_only args = Some True
                    then [JSON_stringify (JObj [(''total'', JNat (length terms1))])]
                    else [JSON_stringify
                            (JObj [(''terms'', JArr (apply_limit (limit args)
                                                       (apply_fields (fields_opt args) terms1))),
                                   (''total'', JNat (length terms1))])])"
    using list_terms_output_success [of rt args res out] by auto
  from a assms(1,2) have "terms1 = filter (search_matches rt s) terms0"
    using apply_search_filter by simp
  with p e out show ?thesis by blast
qed

theorem C8_witness:
  "list_terms sample_runtime sample_config (scripted [ResponseText greetings_text])
     (search_args ''hELLo'') []
     = (Inr [JsonText (JObj [(''terms'', JArr [JObj [(''term'', JStr ''Hello world'')]]),
                             (''total'', JNum (Finite 1))])],
        [form_request sample_config ''terms/list'' [(''id'', NumberText (Finite 7))]])
   \<and> (\<exists>pid res terms0.
         poeditor sample_runtime sample_config (scripted [ResponseText greetings_text]) ''terms/list''
           (list_terms_form pid (search_args ''hELLo'')) []
           = (Inr res, [form_request sample_config ''terms/list'' [(''id'', NumberText (Finite 7))]])
         \<and> extract_terms res = Inr terms0
         \<and> [JsonText (JObj [(''terms'', JArr [JObj [(''term'', JStr ''Hello world'')]]),
                             (''total'', JNum (Finite 1))])]
             = [JSON_stringify
                  (JObj [(''terms'', JArr (filter (search_matches sample_runtime ''hELLo'') terms0)),
                         (''total'', JNat (length (filter (search_matches sample_runtime ''hELLo'')
                                                     terms0)))])])"
proof -
  have h1: "search (search_args ''hELLo'') = Some ''hELLo''"
    by (simp add: search_args_def)
  have h2: "''hELLo'' \<noteq> []"
    by simp
  have h3: "list_terms sample_runtime sample_config (scripted [ResponseText greetings_text])
     (search_args ''hELLo'') []
     = (Inr [JsonText (JObj [(''terms'', JArr [JObj [(''term'', JStr ''Hello world'')]]),
                             (''total'', JNum (Finite 1))])],
        [form_request sample_config ''terms/list'' [(''id'', NumberText (Finite 7))]])"
    by (rule search_run)
  from C8_search_filter [OF h1 h2 h3] h3 show ?thesis
    by (simp add: search_args_def apply_limit_def apply_fields_def)
qed

text \<open>
  The claim as stated fails when a limit is given: of three remote terms, two contain
  the search text; with limit 1 the call returns the first of them only (and total 2),
  so a reduced term that matches the search is not in the returned list.
\<close>

theorem C8_counterexample:
  "fst (list_terms sample_runtime sample_config (scripted [ResponseText salutations_text])
          ((search_args ''hello'')\<lparr>limit := Some 1\<rparr>) [])
     = Inr [JsonText (JObj [(''terms'', JArr [JObj [(''term'', JStr ''Hello world'')]]),
                            (''total'', JNum (Finite 2))])]
   \<and> extract_terms (terms_payload salutations)
     = Inr [JObj [(''term'', JStr ''Hello world''), (''context'', JUndefined),
                  (''translation'', JUndefined)],
            JObj [(''term'', JStr ''Goodbye''), (''context'', JUndefined),
                  (''translation'', JUndefined)],
            JObj [(''term'', JStr ''Hello there''), (''context'', JUndefined),
                  (''translation'', JUndefined)]]
   \<and> search_matches sample_runtime ''hello''
        (JObj [(''term'', JStr ''Hello there''), (''context'', JUndefined),
               (''translation'', JUndefined)])"
  by (simp add: list_terms_eval sample_defs search_matches_def contains_ci_def)

lemma map_of_filter_key:
  "map_of (filter (\<lambda>kv. fst kv \<noteq> k) kvs) k' = (if k' = k then None else map_of kvs k')"
  by (induction kvs) auto

lemma map_err_replace:
  "f x = f y \<Longrightarrow> map_err f (pre @ x # post) = map_err f (pre @ y # post)"
  by (induction pre) (simp_all split: sum.splits)

lemma reduce_term_empty_context:
  assumes "map_of kvs ''context'' = Some (JStr [])"
  shows "reduce_term (JObj kvs)
           = Inr (JObj [(''term'', field (JObj kvs) ''term''), (''context'', JUndefined),
                        (''translation'',
                           js_or (opt_prop (field (JObj kvs) ''translation'') ''content'') JUndefined)])"
  using assms by (simp add: reduce_term_def read_prop_def js_or_def)

lemma reduce_term_no_context:
  "reduce_term (JObj (filter (\<lambda>kv. fst kv \<noteq> ''context'') kvs))
     = Inr (JObj [(''term'', field (JObj kvs) ''term''), (''context'', JUndefined),
                  (''translation'',
                     js_or (opt_prop (field (JObj kvs) ''translation'') ''content'') JUndefined)])"
  by (simp add: reduce_term_def read_prop_def js_or_def map_of_filter_key)

text \<open>
  Claim C9. A remote term whose context is the empty string is reduced to the same
  object as that term without its context property: the reduced context is
  \<^verbatim>\<open>undefined\<close>, and the object written to the output has no context key. So whatever
  the search, the field selection, the limit and the other terms of the response, the
  tool's result is the same for the two.
\<close>

theorem C9_empty_context_absent:
  assumes "map_of kvs ''context'' = Some (JStr [])"
  shows "reduce_term (JObj kvs) = reduce_term (JObj (filter (\<lambda>kv. fst kv \<noteq> ''context'') kvs))
       \<and> (\<exists>r. reduce_term (JObj kvs) = Inr r \<and> field r ''context'' = JUndefined
               \<and> \<not> has_key (serial r) ''context'')
       \<and> list_terms_output rt args (terms_payload (pre @ JObj kvs # post))
           = list_terms_output rt args
               (terms_payload (pre @ JObj (filter (\<lambda>kv. fst kv \<noteq> ''context'') kvs) # post))"
proof (intro conjI)
  show eq: "reduce_term (JObj kvs) = reduce_term (JObj (filter (\<lambda>kv. fst kv \<noteq> ''context'') kvs))"
    by (simp only: reduce_term_empty_context [OF assms] reduce_term_no_context)
  show "\<exists>r. reduce_term (JObj kvs) = Inr r \<and> field r ''context'' = JUndefined
            \<and> \<not> has_key (serial r) ''context''"
    by (simp add: reduce_term_empty_context [OF assms])
  have "extract_terms (terms_payload (pre @ JObj kvs # post))
          = extract_terms
              (terms_payload (pre @ JObj (filter (\<lambda>kv. fst kv \<noteq> ''context'') kvs) # post))"
    using map_err_replace [of reduce_term, OF eq]
    by (simp add: extract_terms_def terms_payload_def read_prop_def opt_prop_def)
  then show "list_terms_output rt args (terms_payload (pre @ JObj kvs # post))
           = list_terms_output rt args
               (terms_payload (pre @ JObj (filter (\<lambda>kv. fst kv \<noteq> ''context'') kvs) # post))"
    by (simp add: list_terms_output_def)
qed

theorem C9_witness:
  "reduce_term (JObj [(''term'', JStr ''Hello world''), (''context'', JStr [])])
     = reduce_term (JObj [(''term'', JStr ''Hello world'')])
   \<and> reduce_term (JObj [(''term'', JStr ''Hello world''), (''context'', JStr [])])
     = Inr (JObj [(''term'', JStr ''Hello world''), (''context'', JUndefined),
                  (''translation'', JUndefined)])
   \<and> list_terms_output sample_runtime
        (\<lparr>project_id = None, language_opt = None, limit = None, search = None, count_only = None,
          fields_opt = Some [F_term, F_context]\<rparr>)
        (terms_payload [JObj [(''term'', JStr ''Hello world''), (''context'', JStr [])]])
     = list_terms_output sample_runtime
        (\<lparr>project_id = None, language_opt = None, limit = None, search = None, count_only = None,
          fields_opt = Some [F_term, F_context]\<rparr>)
        (terms_payload [JObj [(''term'', JStr ''Hello world'')]])
   \<and> list_terms_output sample_runtime
        (\<lparr>project_id = None, language_opt = None, limit = None, search = None, count_only = None,
          fields_opt = Some [F_term, F_context]\<rparr>)
        (terms_payload [JObj [(''term'', JStr ''Hello world''), (''context'', JStr [])]])
     = Inr [JsonText (JObj [(''terms'', JArr [JObj [(''term'', JStr ''Hello world'')]]),
                            (''total'', JNum (Finite 1))])]"
  using C9_empty_context_absent
          [of "[(''term'', JStr ''Hello world''), (''context'', JStr [])]" sample_runtime
              "\<lparr>project_id = None, language_opt = None, limit = None, search = None,
                count_only = None, fields_opt = Some [F_term, F_context]\<rparr>" "[]" "[]"]
  by (simp add: list_terms_eval sample_defs)

end
